theory Spec2Isabelle
  imports Complex_Main "HOL-Library.Sublist"
begin

section \<open>Python values: errors and arrays\<close>

text \<open>
  The exceptions the modelled code can raise. A function that can raise returns either
  a sum (\<open>Inl\<close> the exception) or, when it mutates the grid, the pair of the exception
  (if any) and the grid as it stands when the call ends.
\<close>

datatype py_error = ValueError | TypeError | AttributeError | NameError | IndexError | KeyError

text \<open>
  A two-dimensional numpy array: its rows, and the size of its second axis (which numpy
  keeps even when there is no row). The shape is \<open>(length (rows a), ncols a)\<close>.
  Index entries are Python/numpy integers, modelled as \<open>int\<close>; coordinates are
  modelled as \<open>real\<close>.
\<close>

record 'a array2 =
  rows :: "'a list list"
  ncols :: nat

definition shape0 :: "'a array2 \<Rightarrow> nat" where
  "shape0 a = length (rows a)"

definition rectangular :: "'a array2 \<Rightarrow> bool" where
  "rectangular a = list_all (\<lambda>r. length r = ncols a) (rows a)"

text \<open>
  \<^verbatim>\<open>np.asarray(x, dtype=...).reshape((-1, n))\<close> on the entries of \<open>x\<close> in row-major
  order: numpy raises ValueError unless the number of entries is a multiple of \<open>n\<close>.
\<close>

definition reshape2 :: "nat \<Rightarrow> 'a list \<Rightarrow> py_error + 'a array2" where
  "reshape2 n xs =
     (if n = 0 \<or> length xs mod n \<noteq> 0 then Inl ValueError
      else Inr \<lparr>rows = map (\<lambda>i. take n (drop (i * n) xs)) [0..<length xs div n], ncols = n\<rparr>)"

section \<open>The mesh store (ugrid.py)\<close>

text \<open>Attribute values as the netCDF layer hands them over: text or an integer.\<close>

datatype attr_value = AStr string | AInt int

text \<open>class DataSet: a name, a location, the data array and the attribute dict.\<close>

record data_set =
  ds_name :: string
  ds_location :: string
  ds_data :: "real list"
  ds_attributes :: "string \<rightharpoonup> attr_value"

text \<open>
  class UGrid: the fields \<^verbatim>\<open>_nodes\<close>, \<^verbatim>\<open>_faces\<close>, \<^verbatim>\<open>_edges\<close>,
  \<^verbatim>\<open>_face_face_connectivity\<close> and \<^verbatim>\<open>_data\<close>. \<open>None\<close> is Python's None.
\<close>

record ugrid =
  nodes :: "real array2"
  faces :: "int array2 option"
  edges :: "int array2 option"
  face_face_connectivity :: "int array2 option"
  data :: "string \<rightharpoonup> data_set"

text \<open>The property \<^verbatim>\<open>num_vertices\<close>: None without faces, else \<^verbatim>\<open>_faces.shape[1]\<close>.\<close>

definition num_vertices :: "ugrid \<Rightarrow> nat option" where
  "num_vertices g = (case faces g of None \<Rightarrow> None | Some f \<Rightarrow> Some (ncols f))"

text \<open>
  The deleter of \<^verbatim>\<open>nodes\<close>:
  \<^verbatim>\<open>self._nodes = np.zeros((0,2)); self._edges = None; self._faces = None\<close>.
\<close>

definition del_nodes :: "ugrid \<Rightarrow> ugrid" where
  "del_nodes g = g\<lparr>nodes := \<lparr>rows = [], ncols = 2\<rparr>, edges := None, faces := None\<rparr>"

text \<open>
  The setters of \<^verbatim>\<open>faces\<close> and \<^verbatim>\<open>edges\<close> store the reshaped array in the field:
  \<^verbatim>\<open>self._faces = np.asarray(faces_indexes, dtype=IND_DT).reshape((-1, 3))\<close>.
\<close>

definition set_faces :: "ugrid \<Rightarrow> int array2 \<Rightarrow> py_error option \<times> ugrid" where
  "set_faces g a =
     (case reshape2 3 (concat (rows a)) of
        Inl e \<Rightarrow> (Some e, g)
      | Inr f \<Rightarrow> (None, g\<lparr>faces := Some f\<rparr>))"

definition set_edges :: "ugrid \<Rightarrow> int array2 \<Rightarrow> py_error option \<times> ugrid" where
  "set_edges g a =
     (case reshape2 2 (concat (rows a)) of
        Inl e \<Rightarrow> (Some e, g)
      | Inr f \<Rightarrow> (None, g\<lparr>edges := Some f\<rparr>))"

text \<open>
  The setter of \<^verbatim>\<open>face_face_connectivity\<close>:
  \<^verbatim>\<open>face_face_connectivity = np.asarray(face_face_connectivity, dtype=IND_DT).reshape((-1, self.num_vertices))\<close>.
  The reshaped array is bound to the local name of the argument and the method ends;
  no field of the grid is assigned. With no faces, \<^verbatim>\<open>num_vertices\<close> is None and
  \<^verbatim>\<open>reshape\<close> raises TypeError.
\<close>

definition set_face_face_connectivity :: "ugrid \<Rightarrow> int array2 \<Rightarrow> py_error option \<times> ugrid" where
  "set_face_face_connectivity g a =
     (case num_vertices g of
        None \<Rightarrow> (Some TypeError, g)
      | Some nv \<Rightarrow>
          (case reshape2 nv (concat (rows a)) of
             Inl e \<Rightarrow> (Some e, g)
           | Inr local_array \<Rightarrow> (None, g)))"

text \<open>
  \<^verbatim>\<open>add_data\<close>: the size check for the three locations, then the store under the
  data set's name. \<^verbatim>\<open>len(None)\<close> raises TypeError (an absent edge or face array).
  Any other location string passes unchecked, as no branch of the source matches it.
\<close>

definition store_data :: "ugrid \<Rightarrow> data_set \<Rightarrow> ugrid" where
  "store_data g ds = g\<lparr>data := (data g)(ds_name ds \<mapsto> ds)\<rparr>"

definition add_data :: "ugrid \<Rightarrow> data_set \<Rightarrow> py_error option \<times> ugrid" where
  "add_data g ds =
     (if ds_location ds = ''node'' then
        (if length (ds_data ds) \<noteq> shape0 (nodes g) then (Some ValueError, g)
         else (None, store_data g ds))
      else if ds_location ds = ''edge'' then
        (case edges g of
           None \<Rightarrow> (Some TypeError, g)
         | Some e \<Rightarrow>
             if length (ds_data ds) \<noteq> shape0 e then (Some ValueError, g)
             else (None, store_data g ds))
      else if ds_location ds = ''face'' then
        (case faces g of
           None \<Rightarrow> (Some TypeError, g)
         | Some f \<Rightarrow>
             if length (ds_data ds) \<noteq> shape0 f then (Some ValueError, g)
             else (None, store_data g ds))
      else (None, store_data g ds))"

text \<open>
  The number of elements at a location, in the words of the specification: the number of
  nodes for \<open>node\<close>, of edges for \<open>edge\<close>, of faces for \<open>face\<close>; undefined (None)
  when the element array is absent or the location is none of the three.
\<close>

definition element_count :: "ugrid \<Rightarrow> string \<Rightarrow> nat option" where
  "element_count g loc =
     (if loc = ''node'' then Some (shape0 (nodes g))
      else if loc = ''edge'' then map_option shape0 (edges g)
      else if loc = ''face'' then map_option shape0 (faces g)
      else None)"

section \<open>The connectivity builder (ugrid.py)\<close>

text \<open>
  The canonical local edge \<open>j\<close> of a face:
  \<^verbatim>\<open>edge = (face[j-1], face[j]); if edge[0] > edge[1]: edge = (edge[1], edge[0])\<close>.
  For \<open>j = 0\<close> Python reads \<^verbatim>\<open>face[-1]\<close>, the last entry of the row. A row of the faces
  array has \<^verbatim>\<open>num_vertices\<close> entries and \<open>j\<close> ranges over \<^verbatim>\<open>range(num_vertices)\<close>, so both
  reads are in range.
\<close>

definition local_edge :: "int list \<Rightarrow> nat \<Rightarrow> int \<times> int" where
  "local_edge face j =
     (let edge = (if j = 0 then last face else face ! (j - 1), face ! j)
      in if fst edge > snd edge then (snd edge, fst edge) else edge)"

text \<open>
  A Python set of edges, kept as a list without repetition. Python fixes no iteration
  order for a set; the model lists the members in the order of their first insertion, and
  the theorems speak of membership and repetition only.
\<close>

definition set_add :: "'a \<Rightarrow> 'a list \<Rightarrow> 'a list" where
  "set_add e s = (if e \<in> set s then s else s @ [e])"

text \<open>
  \<^verbatim>\<open>np.array(list(edges), dtype=IND_DT)\<close>: one row per pair. For the empty set numpy
  gives an array of shape (0,), which has no second axis; it is recorded with no row and
  \<open>ncols = 0\<close>.
\<close>

definition pairs_array :: "(int \<times> int) list \<Rightarrow> int array2" where
  "pairs_array es = \<lparr>rows = map (\<lambda>e. [fst e, snd e]) es, ncols = (if es = [] then 0 else 2)\<rparr>"

text \<open>
  \<^verbatim>\<open>build_edges\<close>: for each face, for each \<open>j\<close> in \<^verbatim>\<open>range(num_vertices)\<close>, add the
  canonical edge to the set; then store the array of the set's members in \<^verbatim>\<open>_edges\<close>.
  Without faces, \<^verbatim>\<open>self.faces.shape\<close> raises AttributeError.
\<close>

definition add_face_edges :: "nat \<Rightarrow> int list \<Rightarrow> (int \<times> int) list \<Rightarrow> (int \<times> int) list" where
  "add_face_edges nv face s = fold (\<lambda>j s. set_add (local_edge face j) s) [0..<nv] s"

definition build_edges :: "ugrid \<Rightarrow> py_error option \<times> ugrid" where
  "build_edges g =
     (case faces g of
        None \<Rightarrow> (Some AttributeError, g)
      | Some f \<Rightarrow>
          (None, g\<lparr>edges := Some (pairs_array (fold (add_face_edges (ncols f)) (rows f) []))\<rparr>))"

text \<open>
  \<^verbatim>\<open>build_face_face_connectivity\<close>. The state of the two loops is the array
  \<^verbatim>\<open>face_face\<close> and the dict \<^verbatim>\<open>edges\<close> from a canonical edge to the (face, local edge)
  that is waiting for its neighbour. \<^verbatim>\<open>face_face[i,j] = v\<close> is \<open>set_entry\<close>; every
  index written is a face number below \<^verbatim>\<open>num_faces\<close> and a local edge below
  \<^verbatim>\<open>num_vertices\<close>. Face numbers are written into an array of dtype int32; they are
  modelled as unbounded integers (a grid has fewer than \<open>2 ^ 31\<close> faces).
\<close>

type_synonym pending = "(int \<times> int) \<rightharpoonup> (nat \<times> nat)"

definition set_entry :: "int list list \<Rightarrow> nat \<Rightarrow> nat \<Rightarrow> int \<Rightarrow> int list list" where
  "set_entry ff i j v = ff[i := (ff ! i)[j := v]]"

text \<open>
  The body of the inner loop:
  \<^verbatim>\<open>prev_edge = edges.pop(edge, None)\<close>; when an entry was there,
  \<^verbatim>\<open>face_face[i,j] = face_num; face_face[face_num, edge_num] = i\<close>, and otherwise
  \<^verbatim>\<open>edges[edge] = (i, j)\<close>.
\<close>

definition link_edge :: "nat \<Rightarrow> int list \<Rightarrow> nat \<Rightarrow> int list list \<times> pending \<Rightarrow> int list list \<times> pending" where
  "link_edge i face j st =
     (let face_face = fst st; edges = snd st; edge = local_edge face j
      in case edges edge of
           Some prev_edge \<Rightarrow>
             (set_entry (set_entry face_face i j (int (fst prev_edge)))
                (fst prev_edge) (snd prev_edge) (int i),
              edges(edge := None))
         | None \<Rightarrow> (face_face, edges(edge \<mapsto> (i, j))))"

definition link_face :: "nat \<Rightarrow> nat \<times> int list \<Rightarrow> int list list \<times> pending \<Rightarrow> int list list \<times> pending" where
  "link_face nv iface st = fold (link_edge (fst iface) (snd iface)) [0..<nv] st"

definition link_faces :: "int array2 \<Rightarrow> int list list \<times> pending" where
  "link_faces f =
     fold (link_face (ncols f)) (enumerate 0 (rows f))
       (replicate (shape0 f) (replicate (ncols f) (- 1)), Map.empty)"

definition build_face_face_connectivity :: "ugrid \<Rightarrow> py_error option \<times> ugrid" where
  "build_face_face_connectivity g =
     (case faces g of
        None \<Rightarrow> (Some AttributeError, g)
      | Some f \<Rightarrow>
          (None, g\<lparr>face_face_connectivity := Some \<lparr>rows = fst (link_faces f), ncols = ncols f\<rparr>\<rparr>))"

section \<open>The point locator (ugrid.py)\<close>

text \<open>
  \<^verbatim>\<open>self._nodes[face]\<close>: the rows of the node array at the indices of the face. numpy
  counts a negative index from the end and raises IndexError for an index outside
  \<open>[-n, n)\<close>.
\<close>

definition take_rows :: "'a array2 \<Rightarrow> int list \<Rightarrow> py_error + 'a array2" where
  "take_rows a idx =
     (let n = int (shape0 a)
      in if list_all (\<lambda>i. - n \<le> i \<and> i < n) idx
         then Inr \<lparr>rows = map (\<lambda>i. rows a ! nat (if i < 0 then i + n else i)) idx, ncols = ncols a\<rparr>
         else Inl IndexError)"

text \<open>
  The module-level names of ugrid.py are \<^verbatim>\<open>np\<close>, \<^verbatim>\<open>point_in_tri\<close> (bound by
  \<^verbatim>\<open>from .util import point_in_tri\<close>), \<^verbatim>\<open>IND_DT\<close>, \<^verbatim>\<open>NODE_DT\<close>, \<^verbatim>\<open>DataSet\<close>,
  \<^verbatim>\<open>DataSetIndexed\<close>, \<^verbatim>\<open>UGrid\<close> and \<^verbatim>\<open>open_cf_todict\<close>. The only one of them that
  is a point test is \<^verbatim>\<open>point_in_tri\<close>; its code (util.py) is not among the sources, so
  the test is a parameter. Looking up any other name for a point test finds none.
\<close>

type_synonym point_test = "real array2 \<Rightarrow> real \<times> real \<Rightarrow> bool"

definition module_global :: "point_test \<Rightarrow> string \<Rightarrow> point_test option" where
  "module_global point_in_tri name = (if name = ''point_in_tri'' then Some point_in_tri else None)"

text \<open>
  \<^verbatim>\<open>locate_face_simple\<close>: for each face in storage order, \<^verbatim>\<open>f = self._nodes[face]\<close>,
  then the call \<^verbatim>\<open>point_in_poly(f, point)\<close>, whose name is resolved in the module when
  the call is reached (NameError if it is not bound); the index of the first face for
  which the test holds, or None after the last face. Iterating over absent faces raises
  TypeError.
\<close>

fun locate_faces :: "point_test \<Rightarrow> real array2 \<Rightarrow> real \<times> real \<Rightarrow> nat \<Rightarrow> int list list \<Rightarrow> py_error + nat option" where
  "locate_faces point_in_tri nds point i [] = Inr None"
| "locate_faces point_in_tri nds point i (face # rest) =
     (case take_rows nds face of
        Inl e \<Rightarrow> Inl e
      | Inr f \<Rightarrow>
          (case module_global point_in_tri ''point_in_poly'' of
             None \<Rightarrow> Inl NameError
           | Some point_in_poly \<Rightarrow>
               if point_in_poly f point then Inr (Some i)
               else locate_faces point_in_tri nds point (Suc i) rest))"

definition locate_face_simple :: "point_test \<Rightarrow> ugrid \<Rightarrow> real \<times> real \<Rightarrow> py_error + nat option" where
  "locate_face_simple point_in_tri g point =
     (case faces g of
        None \<Rightarrow> Inl TypeError
      | Some f \<Rightarrow> locate_faces point_in_tri (nodes g) point 0 (rows f))"

section \<open>Python text primitives\<close>

text \<open>
  \<^verbatim>\<open>s.strip()\<close> removes leading and trailing whitespace (space, tab, line feed,
  vertical tab, form feed, carriage return); \<^verbatim>\<open>s.lstrip(chars)\<close> removes the longest
  leading run of characters that occur in \<^verbatim>\<open>chars\<close> (a set of characters, not a prefix).
\<close>

definition is_space :: "char \<Rightarrow> bool" where
  "is_space c = (c \<in> set [CHR '' '', CHR 0x09, CHR 0x0A, CHR 0x0B, CHR 0x0C, CHR 0x0D])"

definition py_strip :: "string \<Rightarrow> string" where
  "py_strip s = rev (dropWhile is_space (rev (dropWhile is_space s)))"

definition py_lstrip :: "string \<Rightarrow> string \<Rightarrow> string" where
  "py_lstrip chars s = dropWhile (\<lambda>c. c \<in> set chars) s"

text \<open>\<^verbatim>\<open>n in s\<close> for two texts: \<open>n\<close> occurs in \<open>s\<close> as a contiguous part.\<close>

fun starts_with :: "string \<Rightarrow> string \<Rightarrow> bool" where
  "starts_with s [] = True"
| "starts_with [] (c # n) = False"
| "starts_with (d # s) (c # n) = (d = c \<and> starts_with s n)"

fun py_in :: "string \<Rightarrow> string \<Rightarrow> bool" where
  "py_in n [] = (n = [])"
| "py_in n (d # s) = (starts_with (d # s) n \<or> py_in n s)"

text \<open>
  The builtin \<^verbatim>\<open>int(x)\<close> (Python 2, base 10). An integer is returned as it is. A text
  is read as: whitespace, an optional sign, whitespace, one or more decimal digits,
  whitespace; any other text raises ValueError.
\<close>

definition digit_of :: "char \<Rightarrow> nat option" where
  "digit_of c = map_of (zip ''0123456789'' [0, 1, 2, 3, 4, 5, 6, 7, 8, 9]) c"

definition digits_value :: "string \<Rightarrow> nat option" where
  "digits_value ds =
     (if ds = [] then None
      else fold (\<lambda>c acc. case (acc, digit_of c) of
                   (Some a, Some d) \<Rightarrow> Some (10 * a + d) | _ \<Rightarrow> None) ds (Some 0))"

definition int_of_text :: "string \<Rightarrow> py_error + int" where
  "int_of_text s =
     (let t = py_strip s;
          negative = (t \<noteq> [] \<and> hd t = CHR ''-'');
          signed = (t \<noteq> [] \<and> (hd t = CHR ''-'' \<or> hd t = CHR ''+''));
          ds = (if signed then dropWhile is_space (tl t) else t)
      in case digits_value ds of
           None \<Rightarrow> Inl ValueError
         | Some n \<Rightarrow> Inr (if negative then - int n else int n))"

fun py_int :: "attr_value \<Rightarrow> py_error + int" where
  "py_int (AInt i) = Inr i"
| "py_int (AStr s) = int_of_text s"

section \<open>The netCDF dataset as the reader sees it (read_netcdf.py)\<close>

text \<open>
  A variable of the dataset: its attributes (\<^verbatim>\<open>var.ncattrs()\<close>, \<^verbatim>\<open>var.getncattr(n)\<close>,
  \<^verbatim>\<open>var.n\<close>; a missing attribute raises AttributeError) and its content
  (\<^verbatim>\<open>var[:]\<close>, \<^verbatim>\<open>var[:,:]\<close>). The dataset's \<^verbatim>\<open>variables\<close> is an ordered dict from
  names to variables, kept as the list of its items.
\<close>

record 'd nc_var =
  ncattrs :: "string \<rightharpoonup> attr_value"
  var_data :: 'd

type_synonym 'd nc_dataset = "(string \<times> 'd nc_var) list"

subsection \<open>Finding the mesh\<close>

text \<open>
  \<^verbatim>\<open>is_valid_mesh\<close>. A name that is not a variable gives False (KeyError is caught). A
  missing \<^verbatim>\<open>cf_role\<close> or \<^verbatim>\<open>topology_dimension\<close>, or a \<^verbatim>\<open>cf_role\<close> that is not a
  text (no \<^verbatim>\<open>strip\<close> method), raises AttributeError, which is caught: False.
  \<^verbatim>\<open>int(mesh_var.topology_dimension)\<close> is evaluated only when the role matches
  (\<^verbatim>\<open>and\<close> is short-circuit); the ValueError it raises on a text that is no integer is
  not caught by \<^verbatim>\<open>except AttributeError\<close>. When the test is false the function
  returns None, which callers read as false.
\<close>

definition is_valid_mesh :: "'d nc_dataset \<Rightarrow> string \<Rightarrow> py_error + bool" where
  "is_valid_mesh nc varname =
     (case map_of nc varname of
        None \<Rightarrow> Inr False
      | Some mesh_var \<Rightarrow>
          (case ncattrs mesh_var ''cf_role'' of
             None \<Rightarrow> Inr False
           | Some (AInt r) \<Rightarrow> Inr False
           | Some (AStr cf_role) \<Rightarrow>
               if py_strip cf_role = ''mesh_topology'' then
                 (case ncattrs mesh_var ''topology_dimension'' of
                    None \<Rightarrow> Inr False
                  | Some td \<Rightarrow>
                      (case py_int td of
                         Inl e \<Rightarrow> Inl e
                       | Inr d \<Rightarrow> Inr (d = 2)))
               else Inr False))"

text \<open>
  \<^verbatim>\<open>find_mesh_names\<close>: the names of the variables, in the order of the dict, for which
  \<^verbatim>\<open>is_valid_mesh\<close> is true; an exception of \<^verbatim>\<open>is_valid_mesh\<close> ends the scan.
\<close>

fun scan_mesh_names :: "'d nc_dataset \<Rightarrow> string list \<Rightarrow> string list \<Rightarrow> py_error + string list" where
  "scan_mesh_names nc [] mesh_names = Inr mesh_names"
| "scan_mesh_names nc (varname # others) mesh_names =
     (case is_valid_mesh nc varname of
        Inl e \<Rightarrow> Inl e
      | Inr valid \<Rightarrow>
          scan_mesh_names nc others (if valid then mesh_names @ [varname] else mesh_names))"

definition find_mesh_names :: "'d nc_dataset \<Rightarrow> py_error + string list" where
  "find_mesh_names nc = scan_mesh_names nc (map fst nc) []"

text \<open>
  The first step of \<^verbatim>\<open>load_grid_from_nc\<close>, "get the mesh_name": the name of the mesh that
  the rest of the load works on, or the exception raised.
\<close>

definition get_mesh_name :: "'d nc_dataset \<Rightarrow> string option \<Rightarrow> py_error + string" where
  "get_mesh_name nc mesh_name =
     (case mesh_name of
        None \<Rightarrow>
          (case find_mesh_names nc of
             Inl e \<Rightarrow> Inl e
           | Inr meshes \<Rightarrow>
               if length meshes = 0 then Inl ValueError
               else if length meshes > 1 then Inl ValueError
               else Inr (meshes ! 0))
      | Some given \<Rightarrow>
          (case is_valid_mesh nc given of
             Inl e \<Rightarrow> Inl e
           | Inr valid \<Rightarrow> if \<not> valid then Inl ValueError else Inr given))"

subsection \<open>Connectivity arrays\<close>

text \<open>\<^verbatim>\<open>array.T\<close> and an entrywise operation on a two-dimensional array.\<close>

definition transpose2 :: "'a array2 \<Rightarrow> 'a array2" where
  "transpose2 a = \<lparr>rows = map (\<lambda>c. map (\<lambda>r. r ! c) (rows a)) [0..<ncols a], ncols = shape0 a\<rparr>"

definition map_array2 :: "('a \<Rightarrow> 'b) \<Rightarrow> 'a array2 \<Rightarrow> 'b array2" where
  "map_array2 h a = \<lparr>rows = map (map h) (rows a), ncols = ncols a\<rparr>"

text \<open>
  \<^verbatim>\<open>if array.shape[0] == defs['num_ind']: array = array.T\<close>
\<close>

definition orient :: "nat \<Rightarrow> 'a array2 \<Rightarrow> 'a array2" where
  "orient num_ind array = (if shape0 array = num_ind then transpose2 array else array)"

text \<open>
  The body of the loop over \<^verbatim>\<open>grid_defs\<close> for one connectivity variable, from
  \<^verbatim>\<open>array = var[:,:]\<close> to the array handed to \<^verbatim>\<open>setattr\<close>. A missing
  \<^verbatim>\<open>start_index\<close> is 0; a missing \<^verbatim>\<open>flag_values\<close> skips the restoring step. In
  Python 2 a text compares above every number, so a text \<^verbatim>\<open>start_index\<close> passes
  \<^verbatim>\<open>start_index >= 1\<close> and the subtraction raises TypeError, as does
  \<^verbatim>\<open>flag_value-start_index\<close> on a text. Entries are modelled as unbounded integers.
\<close>

definition load_connectivity_array :: "nat \<Rightarrow> (int array2) nc_var \<Rightarrow> py_error + int array2" where
  "load_connectivity_array num_ind var =
     (let array = orient num_ind (var_data var)
      in case ncattrs var ''start_index'' of
           Some (AStr t) \<Rightarrow> Inl TypeError
         | other \<Rightarrow>
             (let start_index = (case other of Some (AInt s) \<Rightarrow> s | _ \<Rightarrow> 0)
              in if start_index \<ge> 1 then
                   (let array = map_array2 (\<lambda>e. e - start_index) array
                    in case ncattrs var ''flag_values'' of
                         None \<Rightarrow> Inr array
                       | Some (AStr t) \<Rightarrow> Inl TypeError
                       | Some (AInt flag_value) \<Rightarrow>
                           Inr (map_array2
                                  (\<lambda>e. if e = flag_value - start_index then flag_value else e)
                                  array))
                 else Inr array))"

text \<open>
  The table \<^verbatim>\<open>grid_defs\<close>: the attribute of the grid, the role in the mesh variable and
  the number of indexes expected (\<^verbatim>\<open>num_ind\<close>).
\<close>

definition grid_defs :: "(string \<times> string \<times> nat) list" where
  "grid_defs =
     [(''faces'', ''face_node_connectivity'', 3),
      (''face_face_connectivity'', ''face_face_connectivity'', 3),
      (''boundaries'', ''boundary_node_connectivity'', 2),
      (''edges'', ''edge_node_connectivity'', 2)]"

subsection \<open>Data fields\<close>

text \<open>
  The constructor of \<^verbatim>\<open>DataSet\<close>: ValueError unless the location is one of the three
  texts. read_netcdf.py imports the class from the module data_set, which is not among the
  sources; the class \<^verbatim>\<open>DataSet\<close> of ugrid.py, with the same parameters, is the one
  modelled.
\<close>

definition DataSet :: "string \<Rightarrow> real list \<Rightarrow> attr_value \<Rightarrow> (string \<rightharpoonup> attr_value) \<Rightarrow> py_error + data_set" where
  "DataSet name dat location attributes =
     (case location of
        AStr loc \<Rightarrow>
          if loc \<notin> set [''node'', ''edge'', ''face''] then Inl ValueError
          else Inr \<lparr>ds_name = name, ds_location = loc, ds_data = dat, ds_attributes = attributes\<rparr>
      | AInt i \<Rightarrow> Inl ValueError)"

text \<open>
  The body of the loop over \<^verbatim>\<open>nc.variables.items()\<close>, up to the construction of the
  data set. None is \<^verbatim>\<open>continue\<close>: the variable has no \<^verbatim>\<open>location\<close>, or no
  \<^verbatim>\<open>mesh\<close>, or another mesh. The attributes kept are those whose name passes
  \<^verbatim>\<open>n not in ('location' 'coordinates')\<close>; the two adjacent literals are one text,
  \<^verbatim>\<open>'locationcoordinates'\<close>, so the test is that of a part of a text. The name is
  \<^verbatim>\<open>name.lstrip(mesh_name).lstrip('_')\<close>.
\<close>

definition field_of_var :: "string \<Rightarrow> string \<Rightarrow> (real list) nc_var \<Rightarrow> (py_error + data_set) option" where
  "field_of_var mesh_name name var =
     (case ncattrs var ''location'' of
        None \<Rightarrow> None
      | Some location \<Rightarrow>
          (case ncattrs var ''mesh'' of
             None \<Rightarrow> None
           | Some mesh \<Rightarrow>
               if mesh \<noteq> AStr mesh_name then None
               else Some (DataSet (py_lstrip ''_'' (py_lstrip mesh_name name)) (var_data var)
                            location (ncattrs var |` {n. \<not> py_in n ''locationcoordinates''}))))"

text \<open>The loop: each data set found is added to the grid; an exception ends the load.\<close>

fun load_data :: "string \<Rightarrow> (real list) nc_dataset \<Rightarrow> ugrid \<Rightarrow> py_error option \<times> ugrid" where
  "load_data mesh_name [] grid = (None, grid)"
| "load_data mesh_name (item # others) grid =
     (case field_of_var mesh_name (fst item) (snd item) of
        None \<Rightarrow> load_data mesh_name others grid
      | Some (Inl e) \<Rightarrow> (Some e, grid)
      | Some (Inr ds) \<Rightarrow>
          (case add_data grid ds of
             (Some e, grid') \<Rightarrow> (Some e, grid')
           | (None, grid') \<Rightarrow> load_data mesh_name others grid'))"

section \<open>Notions of the specification\<close>



text \<open>
  The mesh predicate for a variable name, in the words of the specification: the variable
  exists, its role marker \<^verbatim>\<open>cf_role\<close> is equal to \<open>mesh_topology\<close> and its
  \<^verbatim>\<open>topology_dimension\<close> coerces to the integer 2. A variable without one of the two
  attributes does not satisfy it.
\<close>

definition spec_mesh_predicate :: "'d nc_dataset \<Rightarrow> string \<Rightarrow> bool" where
  "spec_mesh_predicate nc varname =
     (case map_of nc varname of
        None \<Rightarrow> False
      | Some v \<Rightarrow>
          (case (ncattrs v ''cf_role'', ncattrs v ''topology_dimension'') of
             (Some r, Some td) \<Rightarrow> r = AStr ''mesh_topology'' \<and> py_int td = Inr 2
           | _ \<Rightarrow> False))"

text \<open>
  The same predicate with the role marker compared after removing the whitespace around
  it.
\<close>

definition satisfies_mesh_predicate :: "'d nc_dataset \<Rightarrow> string \<Rightarrow> bool" where
  "satisfies_mesh_predicate nc varname =
     (case map_of nc varname of
        None \<Rightarrow> False
      | Some v \<Rightarrow>
          (case (ncattrs v ''cf_role'', ncattrs v ''topology_dimension'') of
             (Some (AStr r), Some td) \<Rightarrow> py_strip r = ''mesh_topology'' \<and> py_int td = Inr 2
           | _ \<Rightarrow> False))"

text \<open>
  The topology dimension of a variable with the mesh role is rejected by the integer
  coercion.
\<close>

definition dimension_not_coercible :: "'d nc_dataset \<Rightarrow> string \<Rightarrow> bool" where
  "dimension_not_coercible nc varname =
     (case map_of nc varname of
        None \<Rightarrow> False
      | Some v \<Rightarrow>
          (case (ncattrs v ''cf_role'', ncattrs v ''topology_dimension'') of
             (Some (AStr r), Some td) \<Rightarrow> py_strip r = ''mesh_topology'' \<and> py_int td = Inl ValueError
           | _ \<Rightarrow> False))"



section \<open>The invariant of the face-linking loops\<close>













section \<open>Examples\<close>

text \<open>Example grids: the unit square split along the diagonal 0-2.\<close>

definition quad_nodes :: "real array2" where
  "quad_nodes = \<lparr>rows = [[0, 0], [1, 0], [1, 1], [0, 1]], ncols = 2\<rparr>"

definition quad_faces :: "int array2" where
  "quad_faces = \<lparr>rows = [[0, 1, 2], [0, 2, 3]], ncols = 3\<rparr>"

definition quad_grid :: ugrid where
  "quad_grid = \<lparr>nodes = quad_nodes, faces = Some quad_faces, edges = None,
     face_face_connectivity = None, data = Map.empty\<rparr>"

definition quad_links :: "int array2" where
  "quad_links = \<lparr>rows = [[1, -1, -1], [-1, 0, -1]], ncols = 3\<rparr>"



text \<open>
  Three faces on five nodes, stored with one row per face (3 x 3), and the same faces
  stored with one column per face.
\<close>

definition three_faces :: "int array2" where
  "three_faces = \<lparr>rows = [[0, 1, 2], [1, 3, 2], [2, 3, 4]], ncols = 3\<rparr>"

definition three_faces_by_column :: "int array2" where
  "three_faces_by_column = \<lparr>rows = [[0, 1, 2], [1, 3, 3], [2, 2, 4]], ncols = 3\<rparr>"

definition plain_var :: "'d \<Rightarrow> 'd nc_var" where
  "plain_var d = \<lparr>ncattrs = Map.empty, var_data = d\<rparr>"



text \<open>
  A dataset with one conforming mesh variable and a second variable whose role marker is
  that of a mesh and whose topology dimension is the text \<open>2D\<close>.
\<close>

definition mesh_and_2D :: "unit nc_dataset" where
  "mesh_and_2D =
     [(''mesh'', \<lparr>ncattrs = [''cf_role'' \<mapsto> AStr ''mesh_topology'',
                            ''topology_dimension'' \<mapsto> AInt 2], var_data = ()\<rparr>),
      (''other'', \<lparr>ncattrs = [''cf_role'' \<mapsto> AStr ''mesh_topology'',
                             ''topology_dimension'' \<mapsto> AStr ''2D''], var_data = ()\<rparr>)]"

text \<open>A dataset whose mesh variable has a role marker with a trailing space.\<close>

definition padded_mesh :: "unit nc_dataset" where
  "padded_mesh =
     [(''mesh'', \<lparr>ncattrs = [''cf_role'' \<mapsto> AStr ''mesh_topology '',
                            ''topology_dimension'' \<mapsto> AInt 2], var_data = ()\<rparr>),
      (''depth'', \<lparr>ncattrs = [''units'' \<mapsto> AStr ''m''], var_data = ()\<rparr>)]"

text \<open>A data variable on the faces of the mesh \<open>Mesh2\<close>, with a coordinates attribute.\<close>

definition depth_var :: "(real list) nc_var" where
  "depth_var = \<lparr>ncattrs = [''location'' \<mapsto> AStr ''face'', ''mesh'' \<mapsto> AStr ''Mesh2'',
       ''coordinates'' \<mapsto> AStr ''Mesh2_face_x Mesh2_face_y'', ''units'' \<mapsto> AStr ''m''],
     var_data = [5, 7]\<rparr>"

definition depth_field :: data_set where
  "depth_field = \<lparr>ds_name = ''depth'', ds_location = ''face'', ds_data = [5, 7],
     ds_attributes = [''mesh'' \<mapsto> AStr ''Mesh2'', ''units'' \<mapsto> AStr ''m'']\<rparr>"

text \<open>A data variable of the mesh \<open>my_mesh\<close>.\<close>

definition height_var :: "(real list) nc_var" where
  "height_var = \<lparr>ncattrs = [''location'' \<mapsto> AStr ''node'', ''mesh'' \<mapsto> AStr ''my_mesh''],
     var_data = [1, 2, 3, 4]\<rparr>"

definition depth_on_faces :: "real list \<Rightarrow> data_set" where
  "depth_on_faces xs = \<lparr>ds_name = ''depth'', ds_location = ''face'', ds_data = xs,
     ds_attributes = Map.empty\<rparr>"

section \<open>Theorems about the mesh store\<close>

text \<open>
  Claim C10. Deleting the nodes leaves the empty (0 x 2) node array, resets the edge set
  and the face set to None, and does not touch the stored face-face adjacency or the
  collection of data fields.
\<close>

theorem del_nodes_effect:
  "nodes (del_nodes g) = \<lparr>rows = [], ncols = 2\<rparr>
   \<and> shape0 (nodes (del_nodes g)) = 0
   \<and> edges (del_nodes g) = None
   \<and> faces (del_nodes g) = None
   \<and> face_face_connectivity (del_nodes g) = face_face_connectivity g
   \<and> data (del_nodes g) = data g"
  by (simp add: del_nodes_def shape0_def)

text \<open>
  Claim C5. When the element array of the field's location is present, with \<open>n\<close>
  elements, \<^verbatim>\<open>add_data\<close> raises ValueError and leaves the grid as it was if the data
  length differs from \<open>n\<close>, and otherwise stores the field under its name and changes
  nothing else.
\<close>

theorem add_data_size_guard:
  assumes "element_count g (ds_location ds) = Some n"
  shows "add_data g ds =
           (if length (ds_data ds) = n then (None, g\<lparr>data := (data g)(ds_name ds \<mapsto> ds)\<rparr>)
            else (Some ValueError, g))"
  using assms
  by (auto simp: add_data_def element_count_def store_data_def split: if_splits option.splits)

theorem add_data_size_guard_witness:
  "element_count quad_grid (ds_location (depth_on_faces [1, 2, 3])) = Some 2
   \<and> add_data quad_grid (depth_on_faces [1, 2, 3]) = (Some ValueError, quad_grid)
   \<and> element_count quad_grid (ds_location (depth_on_faces [5, 7])) = Some 2
   \<and> add_data quad_grid (depth_on_faces [5, 7])
       = (None, quad_grid\<lparr>data := (data quad_grid)(''depth'' \<mapsto> depth_on_faces [5, 7])\<rparr>)"
proof -
  have c: "element_count quad_grid ''face'' = Some 2"
    by (simp add: element_count_def quad_grid_def quad_faces_def shape0_def)
  have l: "ds_location (depth_on_faces xs) = ''face''" for xs
    by (simp add: depth_on_faces_def)
  have a: "element_count quad_grid (ds_location (depth_on_faces [1, 2, 3])) = Some 2"
    using c l by simp
  have b: "element_count quad_grid (ds_location (depth_on_faces [5, 7])) = Some 2"
    using c l by simp
  show ?thesis
    using add_data_size_guard [OF a] add_data_size_guard [OF b] a b
    by (simp add: depth_on_faces_def)
qed

text \<open>
  Claim C9. The setter of \<^verbatim>\<open>face_face_connectivity\<close> is given the adjacency of the
  split square, of the right shape (2 x 3), on a grid that has faces and no stored
  adjacency. The call ends without an exception and the grid is what it was: reading
  the property afterwards yields None, not the assigned array. The setter of
  \<^verbatim>\<open>faces\<close>, given the same array, does store it.
\<close>

theorem set_face_face_connectivity_discards:
  "set_face_face_connectivity quad_grid quad_links = (None, quad_grid)
   \<and> face_face_connectivity (snd (set_face_face_connectivity quad_grid quad_links)) = None
   \<and> faces (snd (set_faces quad_grid quad_links)) = Some quad_links"
  by (simp add: set_face_face_connectivity_def set_faces_def num_vertices_def reshape2_def
      quad_grid_def quad_faces_def quad_links_def upt_rec)

text \<open>Whatever is assigned, the setter leaves every field of the grid as it was.\<close>

theorem set_face_face_connectivity_keeps_grid:
  "snd (set_face_face_connectivity g a) = g"
  by (simp add: set_face_face_connectivity_def split: option.splits sum.splits)

section \<open>Theorems about the connectivity builder\<close>

subsection \<open>Edges\<close>

lemma set_set_add: "set (set_add e s) = insert e (set s)"
  by (auto simp: set_add_def)

lemma distinct_set_add: "distinct s \<Longrightarrow> distinct (set_add e s)"
  by (simp add: set_add_def)

lemma set_add_face_edges:
  "set (add_face_edges nv face s) = set s \<union> local_edge face ` {0..<nv}"
proof -
  have "set (fold (\<lambda>j s. set_add (local_edge face j) s) js s) = set s \<union> local_edge face ` set js"
    for js
    by (induction js arbitrary: s) (auto simp: set_set_add)
  from this [of "[0..<nv]"] show ?thesis
    by (simp add: add_face_edges_def)
qed

lemma distinct_add_face_edges: "distinct s \<Longrightarrow> distinct (add_face_edges nv face s)"
proof -
  have "distinct s \<Longrightarrow> distinct (fold (\<lambda>j s. set_add (local_edge face j) s) js s)" for js
    by (induction js arbitrary: s) (auto simp: distinct_set_add)
  then show "distinct s \<Longrightarrow> distinct (add_face_edges nv face s)"
    by (simp add: add_face_edges_def)
qed

lemma set_fold_add_face_edges:
  "set (fold (add_face_edges nv) fs s) = set s \<union> (\<Union>face\<in>set fs. local_edge face ` {0..<nv})"
  by (induction fs arbitrary: s) (auto simp: set_add_face_edges)

lemma distinct_fold_add_face_edges:
  "distinct s \<Longrightarrow> distinct (fold (add_face_edges nv) fs s)"
  by (induction fs arbitrary: s) (auto simp: distinct_add_face_edges)

lemma local_edge_min_max:
  assumes "length face = n" and "j < n"
  shows "local_edge face j =
           (min (face ! ((j + n - 1) mod n)) (face ! j), max (face ! ((j + n - 1) mod n)) (face ! j))"
proof (cases "j = 0")
  case True
  with assms have "face \<noteq> []" by auto
  then have "last face = face ! (n - 1)"
    using assms by (simp add: last_conv_nth)
  moreover have "(j + n - 1) mod n = n - 1"
    using True assms by simp
  ultimately show ?thesis
    using True by (simp add: local_edge_def Let_def min_def max_def)
next
  case False
  then have "(j + n - 1) mod n = j - 1"
    using assms by (simp add: mod_if)
  then show ?thesis
    using False by (simp add: local_edge_def Let_def min_def max_def)
qed

lemma local_edge_ordered: "fst (local_edge face j) \<le> snd (local_edge face j)"
  by (simp add: local_edge_def Let_def)

text \<open>
  Claim C2. With faces present, \<^verbatim>\<open>build_edges\<close> ends without an exception and stores an
  edges array whose rows, read as pairs, are exactly the canonical edges of the faces: for
  each face and each local position \<open>j\<close> below the arity, the pair (min, max) of the
  entries at the cyclic predecessor of \<open>j\<close> and at \<open>j\<close>. Every row has two entries, the
  first not above the second, and no row is repeated.
\<close>

theorem build_edges_canonical_set:
  assumes "faces g = Some f" and "rectangular f"
  shows "\<exists>e. build_edges g = (None, g\<lparr>edges := Some e\<rparr>)
     \<and> (\<lambda>r. (r ! 0, r ! 1)) ` set (rows e) =
         {(min (face ! ((j + ncols f - 1) mod ncols f)) (face ! j),
           max (face ! ((j + ncols f - 1) mod ncols f)) (face ! j)) | face j.
            face \<in> set (rows f) \<and> j < ncols f}
     \<and> (\<forall>r\<in>set (rows e). length r = 2 \<and> r ! 0 \<le> r ! 1)
     \<and> distinct (rows e)"
proof -
  define es where "es = fold (add_face_edges (ncols f)) (rows f) []"
  define e where "e = pairs_array es"
  have run: "build_edges g = (None, g\<lparr>edges := Some e\<rparr>)"
    using assms(1) by (simp add: build_edges_def e_def es_def)
  have members: "set es = (\<Union>face\<in>set (rows f). local_edge face ` {0..<ncols f})"
    by (simp add: es_def set_fold_add_face_edges)
  have len: "length face = ncols f" if "face \<in> set (rows f)" for face
    using assms(2) that by (simp add: rectangular_def list_all_iff)
  have pairs: "(\<lambda>r. (r ! 0, r ! 1)) ` set (rows e) = set es"
    by (force simp: e_def pairs_array_def image_iff)
  have "set es = {(min (face ! ((j + ncols f - 1) mod ncols f)) (face ! j),
           max (face ! ((j + ncols f - 1) mod ncols f)) (face ! j)) | face j.
            face \<in> set (rows f) \<and> j < ncols f}" (is "_ = ?S")
  proof (intro equalityI subsetI)
    fix p assume "p \<in> set es"
    then obtain face j where fj: "face \<in> set (rows f)" "j < ncols f" and "p = local_edge face j"
      unfolding members by force
    then have "p = (min (face ! ((j + ncols f - 1) mod ncols f)) (face ! j),
           max (face ! ((j + ncols f - 1) mod ncols f)) (face ! j))"
      using local_edge_min_max [OF len] by simp
    with fj show "p \<in> ?S" by blast
  next
    fix p assume "p \<in> ?S"
    then obtain face j where fj: "face \<in> set (rows f)" "j < ncols f"
      and "p = (min (face ! ((j + ncols f - 1) mod ncols f)) (face ! j),
           max (face ! ((j + ncols f - 1) mod ncols f)) (face ! j))"
      by blast
    then have "p = local_edge face j"
      using local_edge_min_max [OF len] by simp
    with fj show "p \<in> set es"
      unfolding members by force
  qed
  with pairs have a: "(\<lambda>r. (r ! 0, r ! 1)) ` set (rows e) = ?S" by simp
  have b: "\<forall>r\<in>set (rows e). length r = 2 \<and> r ! 0 \<le> r ! 1"
  proof
    fix r assume "r \<in> set (rows e)"
    then obtain p where "p \<in> set es" and r: "r = [fst p, snd p]"
      by (auto simp: e_def pairs_array_def)
    then obtain face j where "p = local_edge face j"
      by (auto simp: members)
    with r show "length r = 2 \<and> r ! 0 \<le> r ! 1"
      using local_edge_ordered [of face j] by simp
  qed
  have "distinct es"
    by (simp add: es_def distinct_fold_add_face_edges)
  moreover have "inj (\<lambda>p::int \<times> int. [fst p, snd p])"
    by (auto simp: inj_on_def prod_eq_iff)
  ultimately have c: "distinct (rows e)"
    by (simp add: e_def pairs_array_def distinct_map inj_on_def prod_eq_iff)
  from run a b c show ?thesis by blast
qed

theorem build_edges_canonical_set_witness:
  "faces quad_grid = Some quad_faces \<and> rectangular quad_faces
   \<and> (\<exists>e. build_edges quad_grid = (None, quad_grid\<lparr>edges := Some e\<rparr>)
     \<and> (\<lambda>r. (r ! 0, r ! 1)) ` set (rows e) =
         {(min (face ! ((j + ncols quad_faces - 1) mod ncols quad_faces)) (face ! j),
           max (face ! ((j + ncols quad_faces - 1) mod ncols quad_faces)) (face ! j)) | face j.
            face \<in> set (rows quad_faces) \<and> j < ncols quad_faces}
     \<and> (\<forall>r\<in>set (rows e). length r = 2 \<and> r ! 0 \<le> r ! 1)
     \<and> distinct (rows e))"
proof -
  have h1: "faces quad_grid = Some quad_faces"
    by (simp add: quad_grid_def)
  have h2: "rectangular quad_faces"
    by (simp add: rectangular_def quad_faces_def)
  from build_edges_canonical_set [OF h1 h2] h1 h2 show ?thesis
    by blast
qed

subsection \<open>Face links\<close>





























text \<open>The links of the split square: the two faces meet at the diagonal.\<close>

lemma quad_links_built:
  "build_face_face_connectivity quad_grid
     = (None, quad_grid\<lparr>face_face_connectivity := Some quad_links\<rparr>)"
  by (simp add: build_face_face_connectivity_def link_faces_def link_face_def link_edge_def
      set_entry_def local_edge_def Let_def shape0_def quad_grid_def quad_faces_def quad_links_def
      upt_rec numeral_3_eq_3)


section \<open>Theorems about finding the mesh\<close>

lemma py_int_error: "py_int td = Inl e \<Longrightarrow> e = ValueError"
  by (cases td) (auto simp: int_of_text_def Let_def split: option.splits)

lemma not_coercible_not_satisfied:
  "dimension_not_coercible nc n \<Longrightarrow> \<not> satisfies_mesh_predicate nc n"
  by (auto simp: dimension_not_coercible_def satisfies_mesh_predicate_def
      split: option.splits attr_value.splits)

lemma is_valid_mesh_cases:
  "is_valid_mesh nc n =
     (if dimension_not_coercible nc n then Inl ValueError else Inr (satisfies_mesh_predicate nc n))"
  by (auto simp: is_valid_mesh_def dimension_not_coercible_def satisfies_mesh_predicate_def
      split: option.splits attr_value.splits sum.splits dest: py_int_error)

lemma scan_mesh_names_filter:
  assumes "\<forall>n\<in>set names. \<not> dimension_not_coercible nc n"
  shows "scan_mesh_names nc names acc = Inr (acc @ filter (satisfies_mesh_predicate nc) names)"
  using assms
  by (induction names arbitrary: acc) (auto simp: is_valid_mesh_cases)

text \<open>
  Claim C4, as amended. The mesh predicate compares the role marker after removing the
  whitespace around it. With a mesh name given, the step succeeds with that name exactly
  when the name satisfies the predicate, and raises otherwise. With no mesh name given,
  on a dataset in which no variable with the mesh role has a topology dimension that the
  integer coercion rejects, the step selects the variable when exactly one satisfies the
  predicate and raises ValueError when none or more than one does.
\<close>

theorem get_mesh_name_resolution:
  "get_mesh_name nc (Some n) = (if satisfies_mesh_predicate nc n then Inr n else Inl ValueError)
   \<and> ((\<forall>v\<in>set (map fst nc). \<not> dimension_not_coercible nc v) \<longrightarrow>
        get_mesh_name nc None =
          (case filter (satisfies_mesh_predicate nc) (map fst nc) of
             [m] \<Rightarrow> Inr m
           | _ \<Rightarrow> Inl ValueError))"
proof (intro conjI impI)
  show "get_mesh_name nc (Some n) = (if satisfies_mesh_predicate nc n then Inr n else Inl ValueError)"
    using not_coercible_not_satisfied [of nc n]
    by (auto simp: get_mesh_name_def is_valid_mesh_cases)
next
  assume "\<forall>v\<in>set (map fst nc). \<not> dimension_not_coercible nc v"
  then have "find_mesh_names nc = Inr (filter (satisfies_mesh_predicate nc) (map fst nc))"
    using scan_mesh_names_filter [of "map fst nc" nc "[]"] by (simp add: find_mesh_names_def)
  then show "get_mesh_name nc None =
          (case filter (satisfies_mesh_predicate nc) (map fst nc) of
             [m] \<Rightarrow> Inr m
           | _ \<Rightarrow> Inl ValueError)"
    by (cases "filter (satisfies_mesh_predicate nc) (map fst nc)")
       (auto simp: get_mesh_name_def split: list.splits)
qed

lemma padded_sat: "satisfies_mesh_predicate padded_mesh ''mesh''"
  by (simp add: satisfies_mesh_predicate_def padded_mesh_def py_strip_def is_space_def)

lemma padded_filter: "filter (satisfies_mesh_predicate padded_mesh) (map fst padded_mesh) = [''mesh'']"
  by (simp add: satisfies_mesh_predicate_def padded_mesh_def py_strip_def is_space_def)

lemma padded_ok: "\<forall>v\<in>set (map fst padded_mesh). \<not> dimension_not_coercible padded_mesh v"
  by (simp add: dimension_not_coercible_def padded_mesh_def py_strip_def is_space_def)

text \<open>
  The theorem at a dataset with one mesh variable (role marker with a trailing space)
  and one unrelated variable.
\<close>

theorem get_mesh_name_resolution_witness:
  "get_mesh_name padded_mesh (Some ''mesh'') = Inr ''mesh''
   \<and> get_mesh_name padded_mesh (Some ''depth'') = Inl ValueError
   \<and> get_mesh_name padded_mesh None = Inr ''mesh''"
  using get_mesh_name_resolution [of padded_mesh "''mesh''"]
    get_mesh_name_resolution [of padded_mesh "''depth''"] padded_ok
  by (simp add: padded_filter padded_sat) (simp add: satisfies_mesh_predicate_def padded_mesh_def)

text \<open>
  Counterexample to claim C4 as worded: the role marker of the variable \<open>mesh\<close> is not equal to
  \<open>mesh_topology\<close> (it ends with a space), so the name does not satisfy the predicate as
  the claim words it, and yet the step succeeds with the name given.
\<close>

theorem padded_role_counterexample:
  "\<not> spec_mesh_predicate padded_mesh ''mesh''
   \<and> get_mesh_name padded_mesh (Some ''mesh'') = Inr ''mesh''"
  by (simp add: spec_mesh_predicate_def get_mesh_name_def is_valid_mesh_def padded_mesh_def
      py_strip_def is_space_def)

text \<open>
  A variable with the mesh role whose topology dimension is a text that is no integer
  makes the scan itself raise, although exactly one variable satisfies the predicate.
\<close>

lemma text_dimension_raises:
  "filter (spec_mesh_predicate mesh_and_2D) (map fst mesh_and_2D) = [''mesh'']
   \<and> find_mesh_names mesh_and_2D = Inl ValueError
   \<and> get_mesh_name mesh_and_2D None = Inl ValueError"
  by (simp add: spec_mesh_predicate_def get_mesh_name_def find_mesh_names_def is_valid_mesh_def
      mesh_and_2D_def py_strip_def is_space_def int_of_text_def digits_value_def digit_of_def)

section \<open>Theorems about connectivity arrays\<close>



lemma transpose2_twice:
  assumes "rectangular a"
  shows "transpose2 (transpose2 a) = a"
proof -
  have len: "length r = ncols a" if "r \<in> set (rows a)" for r
    using assms that by (simp add: rectangular_def list_all_iff)
  have row: "map (\<lambda>r. r ! c) (map (\<lambda>c'. map (\<lambda>r. r ! c') (rows a)) [0..<ncols a]) = rows a ! c"
    if "c < length (rows a)" for c
  proof -
    have "map (\<lambda>r. r ! c) (map (\<lambda>c'. map (\<lambda>r. r ! c') (rows a)) [0..<ncols a])
          = map (\<lambda>c'. rows a ! c ! c') [0..<ncols a]"
      using that by simp
    also have "\<dots> = map (\<lambda>c'. rows a ! c ! c') [0..<length (rows a ! c)]"
      using len [of "rows a ! c"] that by simp
    also have "\<dots> = rows a ! c"
      by (rule map_nth)
    finally show ?thesis .
  qed
  have "map (\<lambda>c. map (\<lambda>r. r ! c) (map (\<lambda>c'. map (\<lambda>r. r ! c') (rows a)) [0..<ncols a]))
          [0..<length (rows a)] = map (\<lambda>c. rows a ! c) [0..<length (rows a)]"
    using row by simp
  also have "\<dots> = rows a"
    by (rule map_nth)
  finally show ?thesis
    by (simp add: transpose2_def shape0_def)
qed






text \<open>
  Claim C7. Three faces on five nodes, with \<open>k = 3\<close>. Stored with one column per face
  (3 x 3), the array is transposed by the loader and loads to the faces. Stored with one
  row per face (again 3 x 3), the same faces are transposed as well and load to a
  different array: the loader cannot tell the two layouts apart when the count equals
  \<open>k\<close>.
\<close>

theorem transposed_square_array:
  "transpose2 three_faces = three_faces_by_column
   \<and> load_connectivity_array 3 (plain_var three_faces_by_column) = Inr three_faces
   \<and> load_connectivity_array 3 (plain_var three_faces) = Inr three_faces_by_column
   \<and> three_faces_by_column \<noteq> three_faces"
  by (simp add: load_connectivity_array_def plain_var_def orient_def transpose2_def shape0_def
      three_faces_def three_faces_by_column_def upt_rec)

text \<open>
  When the number of elements differs from \<open>k\<close>, the layouts are told apart: an array
  of shape (count, k) and the same array stored transposed, as (k, count), load to the
  same result.
\<close>

theorem load_transposed_storage:
  assumes "rectangular a" and "ncols a = k" and "shape0 a \<noteq> k"
  shows "load_connectivity_array k (var\<lparr>var_data := transpose2 a\<rparr>)
         = load_connectivity_array k (var\<lparr>var_data := a\<rparr>)"
proof -
  have "orient k (transpose2 a) = a"
    using assms(1,2) by (simp add: orient_def transpose2_twice) (simp add: transpose2_def shape0_def)
  moreover have "orient k a = a"
    using assms(3) by (simp add: orient_def)
  ultimately show ?thesis
    by (simp add: load_connectivity_array_def Let_def split: option.splits attr_value.splits)
qed

text \<open>The two faces of the split square, stored with one column per face.\<close>

theorem load_transposed_storage_witness:
  "rectangular quad_faces \<and> ncols quad_faces = 3 \<and> shape0 quad_faces \<noteq> 3
   \<and> transpose2 quad_faces = \<lparr>rows = [[0, 0], [1, 2], [2, 3]], ncols = 2\<rparr>
   \<and> load_connectivity_array 3 (plain_var (transpose2 quad_faces)) = Inr quad_faces"
proof -
  have a: "rectangular quad_faces" and b: "ncols quad_faces = 3" and c: "shape0 quad_faces \<noteq> 3"
    by (simp_all add: rectangular_def quad_faces_def shape0_def)
  have d: "load_connectivity_array 3 (plain_var quad_faces) = Inr quad_faces"
    by (simp add: load_connectivity_array_def plain_var_def orient_def shape0_def quad_faces_def)
  have e: "transpose2 quad_faces = \<lparr>rows = [[0, 0], [1, 2], [2, 3]], ncols = 2\<rparr>"
    by (simp add: transpose2_def quad_faces_def shape0_def upt_rec numeral_3_eq_3)
  from load_transposed_storage [OF a b c, of "plain_var quad_faces"] a b c d e show ?thesis
    by (simp add: plain_var_def)
qed

section \<open>Theorems about data fields\<close>

lemma starts_with_prefix: "starts_with s n = prefix n s"
  by (induction s n rule: starts_with.induct) auto

lemma py_in_sublist: "py_in n s = sublist n s"
proof (induction s)
  case Nil
  then show ?case by simp
next
  case (Cons d s)
  show ?case
  proof (cases n)
    case Nil
    then show ?thesis by simp
  next
    case (Cons c m)
    then show ?thesis
      using Cons.IH by (simp add: starts_with_prefix sublist_Cons_right)
  qed
qed

lemma lstrip_mesh_prefix:
  assumes "CHR ''_'' \<notin> set mesh_name" and "rest = [] \<or> hd rest \<noteq> CHR ''_''"
  shows "py_lstrip ''_'' (py_lstrip mesh_name (mesh_name @ ''_'' @ rest)) = rest"
proof -
  have "py_lstrip mesh_name (mesh_name @ ''_'' @ rest) = ''_'' @ rest"
    using assms(1) by (simp add: py_lstrip_def dropWhile_append2)
  moreover have "py_lstrip ''_'' (''_'' @ rest) = rest"
    using assms(2) by (cases rest) (auto simp: py_lstrip_def)
  ultimately show ?thesis by simp
qed

text \<open>
  Claim C8, as amended. A variable qualifies when its location is one of node, edge and
  face and its mesh attribute is the selected mesh name. When its name is the mesh name,
  then \<open>_\<close>, then a remainder that does not start with \<open>_\<close>, and the mesh name itself
  has no \<open>_\<close>, the loaded field's name is the remainder. The field's attributes hold
  neither \<open>location\<close> nor \<open>coordinates\<close>, and every attribute of the variable whose name
  is not a contiguous part of the text \<open>locationcoordinates\<close> is carried over with its
  value.
\<close>

theorem field_of_var_name_attributes:
  assumes "ncattrs var ''location'' = Some (AStr loc)"
    and "loc \<in> {''node'', ''edge'', ''face''}"
    and "ncattrs var ''mesh'' = Some (AStr mesh_name)"
    and "name = mesh_name @ ''_'' @ rest"
    and "CHR ''_'' \<notin> set mesh_name"
    and "rest = [] \<or> hd rest \<noteq> CHR ''_''"
  shows "\<exists>ds. field_of_var mesh_name name var = Some (Inr ds)
     \<and> ds_name ds = rest \<and> ds_location ds = loc \<and> ds_data ds = var_data var
     \<and> ds_attributes ds ''location'' = None
     \<and> ds_attributes ds ''coordinates'' = None
     \<and> (\<forall>n. \<not> sublist n ''locationcoordinates'' \<longrightarrow> ds_attributes ds n = ncattrs var n)"
proof -
  define ds where "ds = \<lparr>ds_name = rest, ds_location = loc, ds_data = var_data var,
    ds_attributes = ncattrs var |` {n. \<not> py_in n ''locationcoordinates''}\<rparr>"
  have "field_of_var mesh_name name var = Some (Inr ds)"
    using assms(1,2,3) lstrip_mesh_prefix [OF assms(5,6)]
    by (auto simp: field_of_var_def DataSet_def ds_def assms(4))
  moreover have "py_in ''location'' ''locationcoordinates''"
    and "py_in ''coordinates'' ''locationcoordinates''"
    by simp_all
  then have "ds_attributes ds ''location'' = None" and "ds_attributes ds ''coordinates'' = None"
    by (simp_all add: ds_def restrict_map_def)
  moreover have "ds_attributes ds n = ncattrs var n" if "\<not> sublist n ''locationcoordinates''" for n
    using that by (simp add: ds_def restrict_map_def py_in_sublist)
  moreover have "ds_name ds = rest" "ds_location ds = loc" "ds_data ds = var_data var"
    by (simp_all add: ds_def)
  ultimately show ?thesis by blast
qed

text \<open>
  The theorem at the variable \<open>Mesh2_depth\<close> of the mesh \<open>Mesh2\<close>.
\<close>

theorem field_of_var_name_attributes_witness:
  "ncattrs depth_var ''location'' = Some (AStr ''face'')
   \<and> ncattrs depth_var ''mesh'' = Some (AStr ''Mesh2'')
   \<and> (\<exists>ds. field_of_var ''Mesh2'' ''Mesh2_depth'' depth_var = Some (Inr ds)
     \<and> ds_name ds = ''depth'' \<and> ds_location ds = ''face'' \<and> ds_data ds = var_data depth_var
     \<and> ds_attributes ds ''location'' = None
     \<and> ds_attributes ds ''coordinates'' = None
     \<and> (\<forall>n. \<not> sublist n ''locationcoordinates'' \<longrightarrow> ds_attributes ds n = ncattrs depth_var n))"
proof -
  have a: "ncattrs depth_var ''location'' = Some (AStr ''face'')"
    and b: "ncattrs depth_var ''mesh'' = Some (AStr ''Mesh2'')"
    by (simp_all add: depth_var_def)
  have c: "''face'' \<in> {''node'', ''edge'', ''face''}" by simp
  have d: "''Mesh2_depth'' = ''Mesh2'' @ ''_'' @ ''depth''" by simp
  have e: "CHR ''_'' \<notin> set ''Mesh2''" by simp
  have f: "''depth'' = [] \<or> hd ''depth'' \<noteq> CHR ''_''" by simp
  from field_of_var_name_attributes [OF a c b d e f] a b show ?thesis
    by blast
qed

text \<open>
  Counterexample to claim C8 as worded: the variable \<open>Mesh2_depth\<close> carries a \<open>coordinates\<close>
  attribute, which is not the location marker, and the loaded field does not have it.
\<close>

theorem coordinates_dropped_counterexample:
  "field_of_var ''Mesh2'' ''Mesh2_depth'' depth_var = Some (Inr depth_field)
   \<and> ds_attributes depth_field ''coordinates'' = None
   \<and> ncattrs depth_var ''coordinates'' = Some (AStr ''Mesh2_face_x Mesh2_face_y'')"
proof -
  have "(ncattrs depth_var |` {n. \<not> py_in n ''locationcoordinates''}) n
        = [''mesh'' \<mapsto> AStr ''Mesh2'', ''units'' \<mapsto> AStr ''m''] n" for n
    by (simp add: depth_var_def restrict_map_def)
  then have "ncattrs depth_var |` {n. \<not> py_in n ''locationcoordinates''}
             = [''mesh'' \<mapsto> AStr ''Mesh2'', ''units'' \<mapsto> AStr ''m'']"
    by (rule ext)
  moreover have "ncattrs depth_var ''location'' = Some (AStr ''face'')"
    and "ncattrs depth_var ''mesh'' = Some (AStr ''Mesh2'')"
    and "ncattrs depth_var ''coordinates'' = Some (AStr ''Mesh2_face_x Mesh2_face_y'')"
    and "var_data depth_var = [5, 7]"
    by (simp_all add: depth_var_def)
  ultimately show ?thesis
    by (simp add: field_of_var_def DataSet_def depth_field_def py_lstrip_def)
qed

text \<open>
  \<^verbatim>\<open>lstrip\<close> removes characters, not a prefix: for the mesh \<open>my_mesh\<close> the variable
  \<open>my_mesh_height\<close> loads under the name \<open>ight\<close>.
\<close>

lemma lstrip_takes_characters:
  "map_option (map_sum id ds_name) (field_of_var ''my_mesh'' ''my_mesh_height'' height_var)
     = Some (Inr ''ight'')"
  by (simp add: field_of_var_def DataSet_def height_var_def py_lstrip_def)

section \<open>Theorems about the point locator\<close>

text \<open>
  Claim C6. On the split square, whatever the point test imported as
  \<^verbatim>\<open>point_in_tri\<close> does, locating the point (3/4, 1/4), which lies in face 0, raises
  NameError: the loop calls \<^verbatim>\<open>point_in_poly\<close>, a name the module never binds.
\<close>

theorem locate_face_simple_name_error:
  "locate_face_simple point_in_tri quad_grid (3 / 4, 1 / 4) = Inl NameError"
  by (simp add: locate_face_simple_def quad_grid_def quad_faces_def quad_nodes_def take_rows_def
      shape0_def module_global_def)

text \<open>With at least one face, no call returns a face index or None.\<close>

theorem locate_face_simple_never_returns:
  assumes "faces g = Some f" and "rows f \<noteq> []"
  shows "\<exists>e. locate_face_simple point_in_tri g p = Inl e"
proof -
  from assms(2) obtain face rest where "rows f = face # rest"
    by (cases "rows f") auto
  with assms(1) show ?thesis
    by (auto simp: locate_face_simple_def module_global_def split: sum.splits)
qed

theorem locate_face_simple_never_returns_witness:
  "faces quad_grid = Some quad_faces \<and> rows quad_faces \<noteq> []
   \<and> (\<exists>e. locate_face_simple (\<lambda>f p. True) quad_grid (3 / 4, 1 / 4) = Inl e)"
  using locate_face_simple_never_returns [of quad_grid quad_faces "\<lambda>f p. True" "(3 / 4, 1 / 4)"]
  by (simp add: quad_grid_def quad_faces_def)

end
